theory Spec2Isabelle
  imports Main "HOL-Library.FSet" "HOL-Library.Product_Lexorder"
    "HOL-Library.Char_ord" "HOL-Library.List_Lexorder"
begin

section \<open>Strings\<close>

text \<open>
  URLs are modelled as \<^typ>\<open>string\<close>s of 7-bit ASCII characters; text obtained by
  percent-decoding is held as its UTF-8 bytes. The helpers below are the Python \<open>str\<close>
  methods the crawler and \<open>urllib.parse\<close> use, on that domain.
\<close>

definition lower_char :: "char \<Rightarrow> char" where
  "lower_char c =
     (let n = (of_char c :: nat) in if 65 \<le> n \<and> n \<le> 90 then char_of (n + 32) else c)"

definition lower :: "string \<Rightarrow> string" where
  "lower s = map lower_char s"

definition startswith :: "string \<Rightarrow> string \<Rightarrow> bool" where
  "startswith s pre = (take (length pre) s = pre)"

definition endswith :: "string \<Rightarrow> string \<Rightarrow> bool" where
  "endswith s suf = (length suf \<le> length s \<and> drop (length s - length suf) s = suf)"

text \<open>\<open>s.rstrip(c)\<close>: every trailing occurrence of the character is removed.\<close>

definition rstrip_char :: "char \<Rightarrow> string \<Rightarrow> string" where
  "rstrip_char c s = rev (dropWhile (\<lambda>x. x = c) (rev s))"

text \<open>The parts of \<open>s.partition(c)\<close>: the text before the first \<open>c\<close> and the text after it.\<close>

definition before_char :: "char \<Rightarrow> string \<Rightarrow> string" where
  "before_char c s = takeWhile (\<lambda>x. x \<noteq> c) s"

definition after_char :: "char \<Rightarrow> string \<Rightarrow> string" where
  "after_char c s = drop 1 (dropWhile (\<lambda>x. x \<noteq> c) s)"

text \<open>\<open>s.split(c)\<close> for a one-character separator.\<close>

fun split_char :: "char \<Rightarrow> string \<Rightarrow> string list" where
  "split_char c [] = [[]]"
| "split_char c (x # xs) =
     (if x = c then [] # split_char c xs
      else (case split_char c xs of
              [] \<Rightarrow> [[x]]
            | w # ws \<Rightarrow> (x # w) # ws))"

text \<open>\<open>sep.join(parts)\<close>.\<close>

fun join_str :: "string \<Rightarrow> string list \<Rightarrow> string" where
  "join_str sep [] = []"
| "join_str sep [x] = x"
| "join_str sep (x # y # ys) = x @ sep @ join_str sep (y # ys)"

text \<open>\<open>pat in s\<close> for strings.\<close>

fun contains_str :: "string \<Rightarrow> string \<Rightarrow> bool" where
  "contains_str pat [] = (pat = [])"
| "contains_str pat (x # xs) = (startswith (x # xs) pat \<or> contains_str pat xs)"

definition is_ascii_alpha :: "char \<Rightarrow> bool" where
  "is_ascii_alpha c =
     (let n = (of_char c :: nat) in (65 \<le> n \<and> n \<le> 90) \<or> (97 \<le> n \<and> n \<le> 122))"

definition is_ascii_digit :: "char \<Rightarrow> bool" where
  "is_ascii_digit c = (let n = (of_char c :: nat) in 48 \<le> n \<and> n \<le> 57)"

section \<open>The URL library\<close>

text \<open>
  \<open>normalize_url\<close> is built from \<open>urllib.parse\<close>. Its functions are modelled after the
  CPython 3.11 implementation, for \<open>str\<close> arguments. A \<open>ValueError\<close> raised by the
  library is the value \<open>Inl ValueError\<close>.

  Two library routines stay parameters of the development, collected in \<open>pylib\<close>: the MD5
  digest used as URL fingerprint, and the validation of a bracketed (IPv6 or IPvFuture)
  host, which \<open>urlsplit\<close> delegates to the \<open>ipaddress\<close> module
  (\<open>True\<close>: the host is accepted, \<open>False\<close>: \<open>ValueError\<close>).
\<close>

datatype py_error = ValueError | IndexError

record pylib =
  md5_hexdigest :: "string \<Rightarrow> string"
  check_bracketed_host :: "string \<Rightarrow> bool"

definition uses_relative :: "string list" where
  "uses_relative = ['''', ''ftp'', ''http'', ''gopher'', ''nntp'', ''imap'',
                    ''wais'', ''file'', ''https'', ''shttp'', ''mms'',
                    ''prospero'', ''rtsp'', ''rtsps'', ''rtspu'', ''sftp'',
                    ''svn'', ''svn+ssh'', ''ws'', ''wss'']"

definition uses_netloc :: "string list" where
  "uses_netloc = ['''', ''ftp'', ''http'', ''gopher'', ''nntp'', ''telnet'',
                  ''imap'', ''wais'', ''file'', ''mms'', ''https'', ''shttp'',
                  ''snews'', ''prospero'', ''rtsp'', ''rtsps'', ''rtspu'', ''rsync'',
                  ''svn'', ''svn+ssh'', ''sftp'', ''nfs'', ''git'', ''git+ssh'',
                  ''ws'', ''wss'']"

definition uses_params :: "string list" where
  "uses_params = ['''', ''ftp'', ''hdl'', ''prospero'', ''http'', ''imap'',
                  ''https'', ''shttp'', ''rtsp'', ''rtsps'', ''rtspu'', ''sip'',
                  ''sips'', ''mms'', ''sftp'', ''tel'']"

definition scheme_char :: "char \<Rightarrow> bool" where
  "scheme_char c = (is_ascii_alpha c \<or> is_ascii_digit c \<or> c \<in> set ''+-.'')"

text \<open>The characters \<open>urlsplit\<close> strips from the front: C0 controls and the space.\<close>

definition c0_control_or_space :: "char \<Rightarrow> bool" where
  "c0_control_or_space c = ((of_char c :: nat) \<le> 32)"

text \<open>Tab, carriage return and line feed are removed wherever they occur.\<close>

definition unsafe_url_byte :: "char \<Rightarrow> bool" where
  "unsafe_url_byte c = ((of_char c :: nat) \<in> {9, 13, 10})"

definition remove_unsafe :: "string \<Rightarrow> string" where
  "remove_unsafe s = filter (\<lambda>c. \<not> unsafe_url_byte c) s"

definition strip_c0 :: "string \<Rightarrow> string" where
  "strip_c0 s = rev (dropWhile c0_control_or_space (rev (dropWhile c0_control_or_space s)))"

definition netloc_delim :: "char \<Rightarrow> bool" where
  "netloc_delim c = (c \<in> set ''/?#'')"

text \<open>\<open>_splitnetloc(url, 2)\<close>: the text after the leading \<open>//\<close> up to the first of
  \<open>/\<close>, \<open>?\<close>, \<open>#\<close>, and the rest.\<close>

definition splitnetloc :: "string \<Rightarrow> string \<times> string" where
  "splitnetloc url =
     (takeWhile (\<lambda>c. \<not> netloc_delim c) (drop 2 url),
      dropWhile (\<lambda>c. \<not> netloc_delim c) (drop 2 url))"

type_synonym split_result = "string \<times> string \<times> string \<times> string \<times> string"
  \<comment> \<open>scheme, netloc, path, query, fragment\<close>

type_synonym parse_result = "string \<times> string \<times> string \<times> string \<times> string \<times> string"
  \<comment> \<open>scheme, netloc, path, params, query, fragment\<close>

text \<open>\<open>urlsplit(url, scheme)\<close> with fragments allowed.\<close>

definition urlsplit :: "pylib \<Rightarrow> string \<Rightarrow> string \<Rightarrow> py_error + split_result" where
  "urlsplit L url0 scheme0 =
     (let url1 = remove_unsafe (dropWhile c0_control_or_space url0);
          scheme1 = remove_unsafe (strip_c0 scheme0);
          pre = before_char CHR '':'' url1;
          has_scheme = (CHR '':'' \<in> set url1 \<and> pre \<noteq> [] \<and> is_ascii_alpha (hd url1)
                        \<and> list_all scheme_char pre);
          scheme = (if has_scheme then lower pre else scheme1);
          url2 = (if has_scheme then after_char CHR '':'' url1 else url1);
          has_netloc = (take 2 url2 = ''//'');
          netloc = (if has_netloc then fst (splitnetloc url2) else []);
          url3 = (if has_netloc then snd (splitnetloc url2) else url2);
          lb = (CHR ''['' \<in> set netloc);
          rb = (CHR '']'' \<in> set netloc)
      in if has_netloc \<and> ((lb \<and> \<not> rb) \<or> (rb \<and> \<not> lb)) then Inl ValueError
         else if has_netloc \<and> lb \<and> rb
                 \<and> \<not> check_bracketed_host L
                       (before_char CHR '']'' (after_char CHR ''['' netloc))
              then Inl ValueError
         else
           (let has_frag = (CHR ''#'' \<in> set url3);
                fragment = (if has_frag then after_char CHR ''#'' url3 else []);
                url4 = (if has_frag then before_char CHR ''#'' url3 else url3);
                has_query = (CHR ''?'' \<in> set url4);
                query = (if has_query then after_char CHR ''?'' url4 else []);
                url5 = (if has_query then before_char CHR ''?'' url4 else url4)
            in Inr (scheme, netloc, url5, query, fragment)))"

text \<open>\<open>_splitparams\<close>: the parameters follow the first \<open>;\<close> of the last path segment.\<close>

definition splitparams :: "string \<Rightarrow> string \<times> string" where
  "splitparams url =
     (if CHR ''/'' \<in> set url then
        (let last_seg = rev (takeWhile (\<lambda>c. c \<noteq> CHR ''/'') (rev url));
             front = take (length url - length last_seg) url
         in if CHR '';'' \<in> set last_seg
            then (front @ before_char CHR '';'' last_seg, after_char CHR '';'' last_seg)
            else (url, []))
      else (before_char CHR '';'' url, after_char CHR '';'' url))"

definition urlparse_scheme :: "pylib \<Rightarrow> string \<Rightarrow> string \<Rightarrow> py_error + parse_result" where
  "urlparse_scheme L url scheme0 =
     (case urlsplit L url scheme0 of
        Inl e \<Rightarrow> Inl e
      | Inr (scheme, netloc, path, query, fragment) \<Rightarrow>
          if scheme \<in> set uses_params \<and> CHR '';'' \<in> set path
          then Inr (scheme, netloc, fst (splitparams path), snd (splitparams path),
                    query, fragment)
          else Inr (scheme, netloc, path, [], query, fragment))"

text \<open>\<open>urlparse(url)\<close>, the default scheme being empty.\<close>

definition urlparse :: "pylib \<Rightarrow> string \<Rightarrow> py_error + parse_result" where
  "urlparse L url = urlparse_scheme L url []"

definition urlunsplit :: "split_result \<Rightarrow> string" where
  "urlunsplit c =
     (case c of (scheme, netloc, url, query, fragment) \<Rightarrow>
        (let url1 = (if netloc \<noteq> [] \<or> (scheme \<noteq> [] \<and> scheme \<in> set uses_netloc)
                        \<or> take 2 url = ''//''
                     then ''//'' @ netloc
                          @ (if url \<noteq> [] \<and> take 1 url \<noteq> ''/'' then ''/'' @ url else url)
                     else url);
             url2 = (if scheme \<noteq> [] then scheme @ '':'' @ url1 else url1);
             url3 = (if query \<noteq> [] then url2 @ ''?'' @ query else url2)
         in if fragment \<noteq> [] then url3 @ ''#'' @ fragment else url3))"

definition urlunparse :: "parse_result \<Rightarrow> string" where
  "urlunparse c =
     (case c of (scheme, netloc, url, params, query, fragment) \<Rightarrow>
        urlunsplit (scheme, netloc,
                    (if params \<noteq> [] then url @ '';'' @ params else url), query, fragment))"

text \<open>
  \<open>urljoin(base, url)\<close>. The second component of the 6-tuple is the network location, the
  third the path.
\<close>

definition filter_middle :: "string list \<Rightarrow> string list" where
  \<comment> \<open>\<open>segments[1:-1] = filter(None, segments[1:-1])\<close>\<close>
  "filter_middle segs =
     (case segs of
        [] \<Rightarrow> []
      | [x] \<Rightarrow> [x]
      | x # rest \<Rightarrow> x # filter (\<lambda>s. s \<noteq> []) (butlast rest) @ [last rest])"

definition resolve_segment :: "string list \<Rightarrow> string \<Rightarrow> string list" where
  "resolve_segment resolved seg =
     (if seg = ''..'' then butlast resolved
      else if seg = ''.'' then resolved
      else resolved @ [seg])"

definition urljoin :: "pylib \<Rightarrow> string \<Rightarrow> string \<Rightarrow> py_error + string" where
  "urljoin L base url =
     (if base = [] then Inr url
      else if url = [] then Inr base
      else
        (case urlparse_scheme L base [] of
           Inl e \<Rightarrow> Inl e
         | Inr (bscheme, bnetloc, bpath, bparams, bquery, bfragment) \<Rightarrow>
             (case urlparse_scheme L url bscheme of
                Inl e \<Rightarrow> Inl e
              | Inr (scheme, netloc, path, params, query, fragment) \<Rightarrow>
                  if scheme \<noteq> bscheme \<or> scheme \<notin> set uses_relative then Inr url
                  else if scheme \<in> set uses_netloc \<and> netloc \<noteq> [] then
                    Inr (urlunparse (scheme, netloc, path, params, query, fragment))
                  else
                    (let netloc1 = (if scheme \<in> set uses_netloc then bnetloc else netloc)
                     in if path = [] \<and> params = [] then
                          Inr (urlunparse (scheme, netloc1, bpath, bparams,
                                 (if query = [] then bquery else query), fragment))
                        else
                          (let base_parts0 = split_char CHR ''/'' bpath;
                               base_parts = (if last base_parts0 \<noteq> [] then butlast base_parts0
                                             else base_parts0);
                               segments = (if take 1 path = ''/'' then split_char CHR ''/'' path
                                           else filter_middle
                                                  (base_parts @ split_char CHR ''/'' path));
                               resolved0 = foldl resolve_segment [] segments;
                               resolved = (if last segments \<in> {''.'', ''..''}
                                           then resolved0 @ [[]] else resolved0);
                               joined = join_str ''/'' resolved
                           in Inr (urlunparse (scheme, netloc1,
                                     (if joined = [] then ''/'' else joined),
                                     params, query, fragment)))))))"

subsection \<open>Query strings\<close>

definition is_hexdig :: "char \<Rightarrow> bool" where
  "is_hexdig c = (c \<in> set ''0123456789ABCDEFabcdef'')"

definition hexval :: "char \<Rightarrow> nat" where
  "hexval c =
     (let n = (of_char c :: nat) in
      if is_ascii_digit c then n - 48 else if 97 \<le> n then n - 87 else n - 55)"

text \<open>\<open>unquote_to_bytes\<close>: every \<open>%\<close> followed by two hexadecimal digits becomes the
  byte they denote; any other \<open>%\<close> stays.\<close>

fun unquote_to_bytes :: "string \<Rightarrow> string" where
  "unquote_to_bytes [] = []"
| "unquote_to_bytes (c # cs) =
     (if c = CHR ''%'' then
        (case cs of
           h1 # h2 # r \<Rightarrow>
             if is_hexdig h1 \<and> is_hexdig h2
             then char_of (16 * hexval h1 + hexval h2) # unquote_to_bytes r
             else c # unquote_to_bytes cs
         | _ \<Rightarrow> c # unquote_to_bytes cs)
      else c # unquote_to_bytes cs)"

text \<open>
  \<open>bytes.decode('utf-8', 'replace')\<close>, the result held as UTF-8 again: well-formed
  sequences are kept, and every maximal ill-formed part is replaced by U+FFFD
  (the bytes EF BF BD).
\<close>

definition replacement_char :: string where
  "replacement_char = [char_of (239::nat), char_of (191::nat), char_of (189::nat)]"

definition is_cont :: "char \<Rightarrow> bool" where
  "is_cont c = (let n = (of_char c :: nat) in 128 \<le> n \<and> n \<le> 191)"

text \<open>The admissible second byte after lead byte \<open>b\<close> of a 3- or 4-byte sequence.\<close>

definition second_ok :: "char \<Rightarrow> char \<Rightarrow> bool" where
  "second_ok b c =
     (let l = (of_char b :: nat); n = (of_char c :: nat) in
      if l = 224 then 160 \<le> n \<and> n \<le> 191
      else if l = 237 then 128 \<le> n \<and> n \<le> 159
      else if l = 240 then 144 \<le> n \<and> n \<le> 191
      else if l = 244 then 128 \<le> n \<and> n \<le> 143
      else 128 \<le> n \<and> n \<le> 191)"

fun decode_replace :: "string \<Rightarrow> string" where
  "decode_replace [] = []"
| "decode_replace (b # bs) =
     (let n = (of_char b :: nat) in
      if n < 128 then b # decode_replace bs
      else if n < 194 \<or> 244 < n then replacement_char @ decode_replace bs
      else if n < 224 then
        (case bs of
           [] \<Rightarrow> replacement_char
         | b2 # r2 \<Rightarrow>
             if is_cont b2 then b # b2 # decode_replace r2
             else replacement_char @ decode_replace bs)
      else if n < 240 then
        (case bs of
           [] \<Rightarrow> replacement_char
         | b2 # r2 \<Rightarrow>
             if \<not> second_ok b b2 then replacement_char @ decode_replace bs
             else
               (case r2 of
                  [] \<Rightarrow> replacement_char
                | b3 # r3 \<Rightarrow>
                    if is_cont b3 then b # b2 # b3 # decode_replace r3
                    else replacement_char @ decode_replace r2))
      else
        (case bs of
           [] \<Rightarrow> replacement_char
         | b2 # r2 \<Rightarrow>
             if \<not> second_ok b b2 then replacement_char @ decode_replace bs
             else
               (case r2 of
                  [] \<Rightarrow> replacement_char
                | b3 # r3 \<Rightarrow>
                    if \<not> is_cont b3 then replacement_char @ decode_replace r2
                    else
                      (case r3 of
                         [] \<Rightarrow> replacement_char
                       | b4 # r4 \<Rightarrow>
                           if is_cont b4 then b # b2 # b3 # b4 # decode_replace r4
                           else replacement_char @ decode_replace r3))))"

definition unquote :: "string \<Rightarrow> string" where
  "unquote s = (if CHR ''%'' \<notin> set s then s else decode_replace (unquote_to_bytes s))"

definition replace_char :: "char \<Rightarrow> char \<Rightarrow> string \<Rightarrow> string" where
  "replace_char a b s = map (\<lambda>c. if c = a then b else c) s"

definition unquote_plus :: "string \<Rightarrow> string" where
  "unquote_plus s = unquote (replace_char CHR ''+'' CHR '' '' s)"

text \<open>\<open>parse_qsl(qs, keep_blank_values=True)\<close>: empty fields are skipped, a field
  without \<open>=\<close> has the empty value.\<close>

definition parse_qsl :: "string \<Rightarrow> (string \<times> string) list" where
  "parse_qsl qs =
     (if qs = [] then []
      else map (\<lambda>nv. (unquote_plus (before_char CHR ''='' nv),
                       unquote_plus (after_char CHR ''='' nv)))
             (filter (\<lambda>nv. nv \<noteq> []) (split_char CHR ''&'' qs)))"

text \<open>A Python \<open>dict\<close> from names to lists of values, in insertion order of the names.\<close>

fun dict_append :: "(string \<times> string list) list \<Rightarrow> string \<Rightarrow> string
    \<Rightarrow> (string \<times> string list) list" where
  "dict_append [] name v = [(name, [v])]"
| "dict_append ((k, vs) # d) name v =
     (if k = name then (k, vs @ [v]) # d else (k, vs) # dict_append d name v)"

definition parse_qs :: "string \<Rightarrow> (string \<times> string list) list" where
  "parse_qs qs = foldl (\<lambda>d (name, v). dict_append d name v) [] (parse_qsl qs)"

definition always_safe :: "char \<Rightarrow> bool" where
  "always_safe c = (is_ascii_alpha c \<or> is_ascii_digit c \<or> c \<in> set ''_.-~'')"

definition hexdigit_upper :: "nat \<Rightarrow> char" where
  "hexdigit_upper n = (if n < 10 then char_of (48 + n) else char_of (55 + n))"

definition quote_from_bytes :: "string \<Rightarrow> string \<Rightarrow> string" where
  "quote_from_bytes bs safe =
     concat (map (\<lambda>c. if always_safe c \<or> c \<in> set safe then [c]
                       else [CHR ''%'', hexdigit_upper ((of_char c :: nat) div 16),
                             hexdigit_upper ((of_char c :: nat) mod 16)]) bs)"

definition quote_plus :: "string \<Rightarrow> string" where
  "quote_plus s =
     (if CHR '' '' \<notin> set s then quote_from_bytes s []
      else replace_char CHR '' '' CHR ''+'' (quote_from_bytes s '' ''))"

text \<open>\<open>urlencode(items, doseq=True)\<close> for a list of (name, list of values) pairs.\<close>

definition urlencode :: "(string \<times> string list) list \<Rightarrow> string" where
  "urlencode items =
     join_str ''&''
       (concat (map (\<lambda>(k, vs). map (\<lambda>v. quote_plus k @ ''='' @ quote_plus v) vs) items))"

text \<open>\<open>sorted(params.items())\<close>: the names of a dict are distinct, so the name decides.\<close>

definition sorted_items :: "(string \<times> string list) list \<Rightarrow> (string \<times> string list) list" where
  "sorted_items d = sort_key fst d"

section \<open>The URL manager\<close>

subsection \<open>Normalization\<close>

text \<open>
  Python's truth test on an optional string: \<open>None\<close> and the empty string are false.
\<close>

definition truthy :: "string option \<Rightarrow> bool" where
  "truthy x = (case x of None \<Rightarrow> False | Some s \<Rightarrow> s \<noteq> [])"

text \<open>
  \<open>URLManager.normalize_url\<close>. Every exception is caught and gives \<open>None\<close>, as does a
  scheme other than http and https.
\<close>

definition normalize_url :: "pylib \<Rightarrow> string \<Rightarrow> string option \<Rightarrow> string option" where
  "normalize_url L url parent_url =
     (case (if truthy parent_url
               \<and> \<not> (startswith url ''http://'' \<or> startswith url ''https://''
                     \<or> startswith url ''//'')
            then urljoin L (the parent_url) url else Inr url) of
        Inl e \<Rightarrow> None
      | Inr url1 \<Rightarrow>
          (case urlparse L url1 of
             Inl e \<Rightarrow> None
           | Inr (pscheme, pnetloc, ppath, pparams, pquery, pfragment) \<Rightarrow>
               if pscheme \<notin> {''http'', ''https''} then None
               else
                 (let scheme = lower pscheme;
                      netloc0 = lower pnetloc;
                      netloc = (if endswith netloc0 '':80'' \<and> scheme = ''http''
                                then take (length netloc0 - 3) netloc0
                                else if endswith netloc0 '':443'' \<and> scheme = ''https''
                                then take (length netloc0 - 4) netloc0
                                else netloc0);
                      sorted_query = (if pquery \<noteq> []
                                      then urlencode (sorted_items (parse_qs pquery))
                                      else []);
                      fragment = [];
                      path = (if ppath \<noteq> ''/'' \<and> endswith ppath ''/''
                              then rstrip_char CHR ''/'' ppath else ppath)
                  in Some (urlunparse (scheme, netloc, path, pparams, sorted_query,
                                       fragment)))))"

subsection \<open>State\<close>

record url_stats =
  total_queued :: int
  total_visited :: int
  total_failed :: int
  total_skipped :: int
  duplicate_count :: int

type_synonym queue_entry = "int \<times> int \<times> string \<times> string option"
  \<comment> \<open>priority, depth, url, parent_url\<close>

text \<open>
  A Python \<open>dict\<close> from strings to strings, in insertion order; \<open>d[k] = v\<close> replaces the
  value of a key that is present and appends the key otherwise.
\<close>

type_synonym str_dict = "(string \<times> string) list"

fun dict_set :: "str_dict \<Rightarrow> string \<Rightarrow> string \<Rightarrow> str_dict" where
  "dict_set [] k v = [(k, v)]"
| "dict_set ((k', v') # d) k v =
     (if k' = k then (k', v) # d else (k', v') # dict_set d k v)"

record url_manager =
  base_domain :: string
  max_depth :: int
  max_pages :: int
  visited_urls :: "string fset"
  url_hashes :: "string fset"
  failed_urls :: str_dict
  url_queue :: "queue_entry list"
  stats :: url_stats

definition entry_priority :: "queue_entry \<Rightarrow> int" where
  "entry_priority e = fst e"

definition entry_depth :: "queue_entry \<Rightarrow> int" where
  "entry_depth e = fst (snd e)"

definition entry_url :: "queue_entry \<Rightarrow> string" where
  "entry_url e = fst (snd (snd e))"

definition entry_parent :: "queue_entry \<Rightarrow> string option" where
  "entry_parent e = snd (snd (snd e))"

definition zero_stats :: url_stats where
  "zero_stats = \<lparr>total_queued = 0, total_visited = 0, total_failed = 0,
                  total_skipped = 0, duplicate_count = 0\<rparr>"

text \<open>\<open>URLManager._normalize_domain\<close>; the \<open>ValueError\<close> of \<open>urlparse\<close> is not caught.\<close>

definition normalize_domain :: "pylib \<Rightarrow> string \<Rightarrow> py_error + string" where
  "normalize_domain L domain =
     (case urlparse L (if contains_str ''://'' domain then domain else ''http://'' @ domain) of
        Inl e \<Rightarrow> Inl e
      | Inr (pscheme, pnetloc, ppath, pparams, pquery, pfragment) \<Rightarrow> Inr (lower pnetloc))"

text \<open>\<open>URLManager.__init__\<close>.\<close>

definition URLManager_init :: "pylib \<Rightarrow> string \<Rightarrow> int \<Rightarrow> int \<Rightarrow> py_error + url_manager" where
  "URLManager_init L domain md mp =
     (case normalize_domain L domain of
        Inl e \<Rightarrow> Inl e
      | Inr d \<Rightarrow>
          Inr \<lparr>base_domain = d, max_depth = md, max_pages = mp,
               visited_urls = {||}, url_hashes = {||}, failed_urls = [],
               url_queue = [], stats = zero_stats\<rparr>)"

text \<open>\<open>URLManager._url_hash\<close>: the MD5 digest of the URL, in hexadecimal.\<close>

definition url_hash :: "pylib \<Rightarrow> string \<Rightarrow> string" where
  "url_hash L url = md5_hexdigest L url"

subsection \<open>Queue operations\<close>

text \<open>
  \<open>URLManager.add_url\<close>: the result is the returned flag and the manager after the call.
  The checks come in the source's order: invalid URL, duplicate, depth limit, page limit.
\<close>

definition add_url :: "pylib \<Rightarrow> url_manager \<Rightarrow> string \<Rightarrow> int \<Rightarrow> string option \<Rightarrow> int option
    \<Rightarrow> bool \<times> url_manager" where
  "add_url L s url depth parent_url priority =
     (let normalized_url = normalize_url L url parent_url in
      if \<not> truthy normalized_url then
        (False, s\<lparr>stats := (stats s)\<lparr>total_skipped := total_skipped (stats s) + 1\<rparr>\<rparr>)
      else
        (let n = the normalized_url; h = url_hash L n in
         if h |\<in>| url_hashes s then
           (False, s\<lparr>stats := (stats s)\<lparr>duplicate_count := duplicate_count (stats s) + 1\<rparr>\<rparr>)
         else if depth > max_depth s then
           (False, s\<lparr>stats := (stats s)\<lparr>total_skipped := total_skipped (stats s) + 1\<rparr>\<rparr>)
         else if int (fcard (visited_urls s)) \<ge> max_pages s then
           (False, s\<lparr>stats := (stats s)\<lparr>total_skipped := total_skipped (stats s) + 1\<rparr>\<rparr>)
         else
           (let p = (case priority of Some p \<Rightarrow> p | None \<Rightarrow> 3) in
            (True, s\<lparr>url_queue := url_queue s @ [(p, depth, n, parent_url)],
                      url_hashes := finsert h (url_hashes s),
                      stats := (stats s)\<lparr>total_queued := total_queued (stats s) + 1\<rparr>\<rparr>))))"

text \<open>The sort key of \<open>get_next_url\<close>: priority, then depth.\<close>

definition queue_key :: "queue_entry \<Rightarrow> int \<times> int" where
  "queue_key e = (entry_priority e, entry_depth e)"

text \<open>
  \<open>URLManager.get_next_url\<close>. Python's \<open>sorted\<close> is a stable sort, and so is
  \<^const>\<open>sort_key\<close>; the sorted queue is stored back before its head is taken.
\<close>

definition get_next_url :: "url_manager
    \<Rightarrow> (int \<times> string \<times> string option) option \<times> url_manager" where
  "get_next_url s =
     (if url_queue s = [] then (None, s)
      else
        (case sort_key queue_key (url_queue s) of
           [] \<Rightarrow> (None, s)
         | (priority, depth, url, parent_url) # rest \<Rightarrow>
             (Some (depth, url, parent_url), s\<lparr>url_queue := rest\<rparr>)))"

definition mark_visited :: "pylib \<Rightarrow> url_manager \<Rightarrow> string \<Rightarrow> url_manager" where
  "mark_visited L s url =
     (let normalized_url = normalize_url L url None in
      if truthy normalized_url then
        s\<lparr>visited_urls := finsert (the normalized_url) (visited_urls s),
          stats := (stats s)\<lparr>total_visited := total_visited (stats s) + 1\<rparr>\<rparr>
      else s)"

definition mark_failed :: "pylib \<Rightarrow> url_manager \<Rightarrow> string \<Rightarrow> string \<Rightarrow> url_manager" where
  "mark_failed L s url err =
     (let normalized_url = normalize_url L url None in
      if truthy normalized_url then
        s\<lparr>failed_urls := dict_set (failed_urls s) (the normalized_url) err,
          stats := (stats s)\<lparr>total_failed := total_failed (stats s) + 1\<rparr>\<rparr>
      else s)"

definition is_visited :: "pylib \<Rightarrow> url_manager \<Rightarrow> string \<Rightarrow> bool" where
  "is_visited L s url =
     (let normalized_url = normalize_url L url None in
      if truthy normalized_url then the normalized_url |\<in>| visited_urls s else False)"

definition queue_size :: "url_manager \<Rightarrow> nat" where
  "queue_size s = length (url_queue s)"

subsection \<open>Snapshots\<close>

text \<open>
  The dictionary built by \<open>save_state\<close> and read by \<open>load_state\<close>. \<open>load_state\<close> reads
  each of the eight keys with \<open>dict.get\<close> and a default, so a key may be absent
  (\<open>None\<close>); \<open>snap_unknown\<close> holds the entries under any other key, with their values as
  text. Python leaves the order of \<open>list(a_set)\<close> open; the model lists a set in
  ascending order.
\<close>

record snapshot =
  snap_base_domain :: "string option"
  snap_max_depth :: "int option"
  snap_max_pages :: "int option"
  snap_visited_urls :: "string list option"
  snap_url_hashes :: "string list option"
  snap_failed_urls :: "str_dict option"
  snap_url_queue :: "queue_entry list option"
  snap_stats :: "url_stats option"
  snap_unknown :: "(string \<times> string) list"

definition save_state :: "url_manager \<Rightarrow> snapshot" where
  "save_state s =
     \<lparr>snap_base_domain = Some (base_domain s),
      snap_max_depth = Some (max_depth s),
      snap_max_pages = Some (max_pages s),
      snap_visited_urls = Some (sorted_list_of_fset (visited_urls s)),
      snap_url_hashes = Some (sorted_list_of_fset (url_hashes s)),
      snap_failed_urls = Some (failed_urls s),
      snap_url_queue = Some (url_queue s),
      snap_stats = Some (stats s),
      snap_unknown = []\<rparr>"

text \<open>\<open>state.get(key, default)\<close>.\<close>

definition dict_get :: "'a option \<Rightarrow> 'a \<Rightarrow> 'a" where
  "dict_get field dflt = (case field of Some v \<Rightarrow> v | None \<Rightarrow> dflt)"

definition load_state :: "url_manager \<Rightarrow> snapshot \<Rightarrow> url_manager" where
  "load_state s state =
     \<lparr>base_domain = dict_get (snap_base_domain state) (base_domain s),
      max_depth = dict_get (snap_max_depth state) (max_depth s),
      max_pages = dict_get (snap_max_pages state) (max_pages s),
      visited_urls = fset_of_list (dict_get (snap_visited_urls state) []),
      url_hashes = fset_of_list (dict_get (snap_url_hashes state) []),
      failed_urls = dict_get (snap_failed_urls state) [],
      url_queue = dict_get (snap_url_queue state) [],
      stats = dict_get (snap_stats state) (stats s)\<rparr>"

section \<open>The crawl loop\<close>

text \<open>
  \<open>NGOScraper.scrape_ngo\<close>, as far as it acts on the URL manager. What the network and
  the HTML extractor deliver is an input of each iteration:
  \<^item> \<open>Blocked\<close>: \<open>_fetch_url\<close> returns \<open>None\<close> because robots.txt denies the URL;
  \<^item> \<open>FetchFailed err\<close>: \<open>_fetch_url\<close> records the failure with \<open>mark_failed\<close> and
    returns \<open>None\<close>;
  \<^item> \<open>FetchedPage links docs\<close>: an HTML page; \<open>links\<close> are the links that pass the
    exclusion patterns, each with the priority \<open>_process_html_page\<close> hands to
    \<open>add_url\<close>, and \<open>docs\<close> are the document links;
  \<^item> \<open>FetchedOther\<close>: a document, an unsupported content type, or a page that
    \<open>_process_html_page\<close> leaves before it extracts links.
\<close>

datatype fetch_outcome =
    Blocked
  | FetchFailed string
  | FetchedPage "(string \<times> int) list" "string list"
  | FetchedOther

text \<open>Links are queued one level below the page, with the page as parent.\<close>

definition process_links :: "pylib \<Rightarrow> url_manager \<Rightarrow> string \<Rightarrow> int \<Rightarrow> (string \<times> int) list
    \<Rightarrow> url_manager" where
  "process_links L s url depth links =
     foldl (\<lambda>s (link_url, priority).
              snd (add_url L s link_url (depth + 1) (Some url) (Some priority))) s links"

text \<open>Document links are queued at the depth of the page, with priority 0.\<close>

definition process_documents :: "pylib \<Rightarrow> url_manager \<Rightarrow> string \<Rightarrow> int \<Rightarrow> string list
    \<Rightarrow> url_manager" where
  "process_documents L s url depth docs =
     foldl (\<lambda>s doc_url. snd (add_url L s doc_url depth (Some url) (Some 0))) s docs"

datatype loop_result =
    Exhausted url_manager
  | LimitReached url_manager
  | Continue url_manager

text \<open>
  One pass through the body of \<open>while True\<close>. \<open>max_pages\<close> is the local variable of
  \<open>scrape_ngo\<close>, not the field of the manager.
\<close>

definition loop_iteration :: "pylib \<Rightarrow> int \<Rightarrow> fetch_outcome \<Rightarrow> url_manager \<Rightarrow> loop_result" where
  "loop_iteration L mp outcome s =
     (case get_next_url s of
        (None, s1) \<Rightarrow> Exhausted s1
      | (Some (depth, url, parent_url), s1) \<Rightarrow>
          if int (fcard (visited_urls s1)) \<ge> mp then LimitReached s1
          else if is_visited L s1 url then Continue s1
          else
            (case outcome of
               Blocked \<Rightarrow> Continue (mark_visited L s1 url)
             | FetchFailed err \<Rightarrow> Continue (mark_visited L (mark_failed L s1 url err) url)
             | FetchedPage links docs \<Rightarrow>
                 Continue (process_documents L
                             (process_links L (mark_visited L s1 url) url depth links)
                             url depth docs)
             | FetchedOther \<Rightarrow> Continue (mark_visited L s1 url)))"

text \<open>Seeds are queued at depth 0 with priority 0 and no parent.\<close>

definition enqueue_seeds :: "pylib \<Rightarrow> url_manager \<Rightarrow> string list \<Rightarrow> url_manager" where
  "enqueue_seeds L s seeds =
     foldl (\<lambda>s seed. snd (add_url L s seed 0 None (Some 0))) s seeds"

text \<open>
  The part of \<open>scrape_ngo\<close> before the loop: the manager is created for the host of the
  first seed, a checkpoint is loaded when the crawl resumes from one (\<open>Some snapshot\<close>),
  and the seeds are queued if the queue is empty.
\<close>

definition crawl_start :: "pylib \<Rightarrow> int \<Rightarrow> int \<Rightarrow> string list \<Rightarrow> snapshot option
    \<Rightarrow> py_error + url_manager" where
  "crawl_start L md mp seeds resume =
     (case seeds of
        [] \<Rightarrow> Inl IndexError
      | base_url # _ \<Rightarrow>
          (case urlparse L base_url of
             Inl e \<Rightarrow> Inl e
           | Inr (pscheme, pnetloc, ppath, pparams, pquery, pfragment) \<Rightarrow>
               (case URLManager_init L pnetloc md mp of
                  Inl e \<Rightarrow> Inl e
                | Inr s0 \<Rightarrow>
                    (let s1 = (case resume of None \<Rightarrow> s0 | Some state \<Rightarrow> load_state s0 state)
                     in Inr (if queue_size s1 = 0 then enqueue_seeds L s1 seeds else s1)))))"

text \<open>
  The states of the manager at the head of the loop, over all crawls with depth limit
  \<open>md\<close> and page limit \<open>mp\<close>: a crawl starts fresh, or resumes from the checkpoint of a
  crawl with the same limits.
\<close>

inductive crawl_state :: "pylib \<Rightarrow> int \<Rightarrow> int \<Rightarrow> url_manager \<Rightarrow> bool"
  for L :: pylib and md :: int and mp :: int where
  fresh: "crawl_start L md mp seeds None = Inr s \<Longrightarrow> crawl_state L md mp s"
| resumed: "crawl_state L md mp s \<Longrightarrow> crawl_start L md mp seeds (Some (save_state s)) = Inr s'
    \<Longrightarrow> crawl_state L md mp s'"
| iteration: "crawl_state L md mp s \<Longrightarrow> loop_iteration L mp outcome s = Continue s'
    \<Longrightarrow> crawl_state L md mp s'"
| exhausted: "crawl_state L md mp s \<Longrightarrow> loop_iteration L mp outcome s = Exhausted s'
    \<Longrightarrow> crawl_state L md mp s'"
| limit_reached: "crawl_state L md mp s \<Longrightarrow> loop_iteration L mp outcome s = LimitReached s'
    \<Longrightarrow> crawl_state L md mp s'"

section \<open>Checkpoint files\<close>

record scraper_stats =
  total_requests :: int
  successful_requests :: int
  failed_requests :: int
  total_documents :: int
  total_links :: int
  start_time :: "string option"
  end_time :: "string option"

record checkpoint_data =
  cp_timestamp :: string
  cp_url_manager_state :: snapshot
  cp_stats :: scraper_stats

text \<open>
  \<open>NGOScraper._save_checkpoint\<close> opens the progress file with mode \<open>'w'\<close>, which empties
  the file, and lets \<open>json.dump\<close> write the text of the checkpoint into it. The file
  system is a map from paths to contents; \<open>dumps\<close> is the JSON encoder. Where the
  attempt fails is an input:
  \<^item> \<open>NoFault\<close>: nothing fails;
  \<^item> \<open>OpenFails\<close>: creating the directory or opening the file raises;
  \<^item> \<open>WriteFails k\<close>: the write stops after \<open>k\<close> characters.
  Every exception is caught and logged, so the caller sees no error.
\<close>

datatype io_fault = NoFault | OpenFails | WriteFails nat

definition save_checkpoint :: "(checkpoint_data \<Rightarrow> string) \<Rightarrow> io_fault \<Rightarrow> (string \<rightharpoonup> string)
    \<Rightarrow> string \<Rightarrow> string \<Rightarrow> url_manager \<Rightarrow> scraper_stats \<Rightarrow> (string \<rightharpoonup> string)" where
  "save_checkpoint dumps fault fs progress_file now um st =
     (let checkpoint = \<lparr>cp_timestamp = now, cp_url_manager_state = save_state um,
                         cp_stats = st\<rparr>
      in case fault of
           OpenFails \<Rightarrow> fs
         | WriteFails k \<Rightarrow> fs(progress_file \<mapsto> take k (dumps checkpoint))
         | NoFault \<Rightarrow> fs(progress_file \<mapsto> dumps checkpoint))"

section \<open>Example data\<close>

text \<open>
  An instance of the library parameters for evaluating the model on concrete URLs: the
  fingerprint of a URL is the URL itself, and no bracketed host is accepted.
\<close>

definition lib0 :: pylib where
  "lib0 = \<lparr>md5_hexdigest = (\<lambda>s. s), check_bracketed_host = (\<lambda>h. False)\<rparr>"

text \<open>The manager that \<open>URLManager('example.org', max_depth=3, max_pages=10)\<close> creates.\<close>

definition fresh_manager :: url_manager where
  "fresh_manager =
     \<lparr>base_domain = ''example.org'', max_depth = 3, max_pages = 10,
      visited_urls = {||}, url_hashes = {||}, failed_urls = [],
      url_queue = [], stats = zero_stats\<rparr>"

text \<open>A manager with depth limit 1 whose page budget of 1 is used up.\<close>

definition full_manager :: url_manager where
  "full_manager =
     \<lparr>base_domain = ''example.org'', max_depth = 1, max_pages = 1,
      visited_urls = {|''http://example.org/''|}, url_hashes = {|''http://example.org/''|},
      failed_urls = [], url_queue = [],
      stats = \<lparr>total_queued = 1, total_visited = 1, total_failed = 0,
                total_skipped = 0, duplicate_count = 0\<rparr>\<rparr>"

text \<open>Four URLs queued at depth 0 with the priorities 2, 0, 1, 0, in this order.\<close>

definition four_enqueued :: url_manager where
  "four_enqueued =
     foldl (\<lambda>s (url, priority). snd (add_url lib0 s url 0 None (Some priority))) fresh_manager
       [(''http://example.org/low'', 2), (''http://example.org/first'', 0),
        (''http://example.org/mid'', 1), (''http://example.org/second'', 0)]"

text \<open>A snapshot without any entry.\<close>

definition empty_snapshot :: snapshot where
  "empty_snapshot =
     \<lparr>snap_base_domain = None, snap_max_depth = None, snap_max_pages = None,
      snap_visited_urls = None, snap_url_hashes = None, snap_failed_urls = None,
      snap_url_queue = None, snap_stats = None, snap_unknown = []\<rparr>"

text \<open>
  A crawl of \<open>http://example.org/\<close> with depth limit 1 and page limit 2, after two
  pages: the seed, which links to \<open>/a\<close> and \<open>/b\<close>, and \<open>/a\<close>.
\<close>

definition demo_seeds :: "string list" where
  "demo_seeds = [''http://example.org/'']"

definition demo_checkpoint :: url_manager where
  "demo_checkpoint =
     \<lparr>base_domain = ''example.org'', max_depth = 1, max_pages = 2,
      visited_urls = {|''http://example.org/'', ''http://example.org/a''|},
      url_hashes = {|''http://example.org/'', ''http://example.org/a'',
                     ''http://example.org/b''|},
      failed_urls = [],
      url_queue = [(3, 1, ''http://example.org/b'', Some ''http://example.org/'')],
      stats = \<lparr>total_queued = 3, total_visited = 2, total_failed = 0,
                total_skipped = 0, duplicate_count = 0\<rparr>\<rparr>"

text \<open>A stand-in for the JSON encoder in examples: it writes the timestamp only.\<close>

definition demo_dumps :: "checkpoint_data \<Rightarrow> string" where
  "demo_dumps d = ''{timestamp: '' @ cp_timestamp d @ ''}''"

definition zero_scraper_stats :: scraper_stats where
  "zero_scraper_stats =
     \<lparr>total_requests = 0, successful_requests = 0, failed_requests = 0,
      total_documents = 0, total_links = 0, start_time = None, end_time = None\<rparr>"

section \<open>The scope invariant\<close>

text \<open>
  The manager carries the limits \<open>md\<close> and \<open>mp\<close>, has visited at most \<open>mp\<close> pages, and
  holds no queue entry deeper than \<open>md\<close>.
\<close>

definition scope_inv :: "int \<Rightarrow> int \<Rightarrow> url_manager \<Rightarrow> bool" where
  "scope_inv md mp s =
     (max_depth s = md \<and> max_pages s = mp \<and> int (fcard (visited_urls s)) \<le> mp
      \<and> list_all (\<lambda>e. entry_depth e \<le> md) (url_queue s))"

section \<open>Properties\<close>

text \<open>
  C5. Loading the snapshot that \<open>save_state\<close> builds from a manager restores that manager:
  scope, visited set, fingerprints, failed map, queue and statistics are all as they were,
  whatever the manager held before the load.
\<close>

theorem load_save_roundtrip: "load_state s0 (save_state s) = s"
  by (simp add: load_state_def save_state_def dict_get_def)

end
